theory Spec2Isabelle
  imports Main
begin

section \<open>The login slice of the housekeeping state\<close>

text \<open>
  The embedding follows \<^verbatim>\<open>src/housekeeping_state/reducers/loginSlice.ts\<close>.
  The slice state is a record of three fields; every case reducer of the slice is a
  function from the state before to the state after (the draft a case reducer
  mutates is committed as a whole, so a run of assignments is a record update).
\<close>

subsection \<open>State\<close>

text \<open>The union type \<^verbatim>\<open>"idle" | "loading" | "failed"\<close> of the field \<^verbatim>\<open>status\<close>.\<close>

datatype request_status = Idle | Loading | Failed

text \<open>\<^verbatim>\<open>interface LoginState\<close> (lines 5-9).\<close>

record LoginState =
  loggedIn :: bool
  token :: string
  status :: request_status

text \<open>\<^verbatim>\<open>const initialState\<close> (lines 11-15).\<close>

definition initialState :: LoginState where
  "initialState = \<lparr>loggedIn = False, token = '''', status = Idle\<rparr>"

subsection \<open>Case reducers\<close>

text \<open>\<^verbatim>\<open>logIn\<close> (lines 36-43): the token is the payload, then the flag is set.\<close>

definition logIn :: "LoginState \<Rightarrow> string \<Rightarrow> LoginState" where
  "logIn state payload = state\<lparr>token := payload, loggedIn := True\<rparr>"

text \<open>\<^verbatim>\<open>logOut\<close> (lines 44-47).\<close>

definition logOut :: "LoginState \<Rightarrow> LoginState" where
  "logOut state = state\<lparr>loggedIn := False, token := ''''\<rparr>"

text \<open>
  The three handlers added for \<^verbatim>\<open>loginAsync\<close> in \<^verbatim>\<open>extraReducers\<close>
  (lines 53-65). The pending and the rejected handler take the state only; the
  fulfilled handler reads the payload of its action.
\<close>

definition loginAsync_pending :: "LoginState \<Rightarrow> LoginState" where
  "loginAsync_pending state = state\<lparr>status := Loading\<rparr>"

definition loginAsync_fulfilled :: "LoginState \<Rightarrow> string \<Rightarrow> LoginState" where
  "loginAsync_fulfilled state payload =
     state\<lparr>status := Idle, token := payload, loggedIn := True\<rparr>"

definition loginAsync_rejected :: "LoginState \<Rightarrow> LoginState" where
  "loginAsync_rejected state = state\<lparr>status := Failed, loggedIn := False, token := ''''\<rparr>"

subsection \<open>Actions and the slice reducer\<close>

text \<open>
  What a failed call of the collaborator throws, as the message it carries. The
  rejected action of the thunk has it in its field \<^verbatim>\<open>error\<close>.
\<close>

datatype login_error = LoginError string

text \<open>
  The actions the slice reducer tells apart by their type: the two of
  \<^verbatim>\<open>loginSlice.actions\<close> and the three lifecycle actions of the thunk. Every other
  action of the store is \<open>OtherAction\<close>: a slice reducer returns the state it was
  given for an action it has no case for. The handler of the rejected action takes
  the state only (line 61), so the reducer passes it nothing of the error.
\<close>

datatype action =
    LogIn string
  | LogOut
  | LoginAsyncPending
  | LoginAsyncFulfilled string
  | LoginAsyncRejected login_error
  | OtherAction

fun reducer :: "LoginState \<Rightarrow> action \<Rightarrow> LoginState" where
  "reducer state (LogIn payload) = logIn state payload"
| "reducer state LogOut = logOut state"
| "reducer state LoginAsyncPending = loginAsync_pending state"
| "reducer state (LoginAsyncFulfilled payload) = loginAsync_fulfilled state payload"
| "reducer state (LoginAsyncRejected e) = loginAsync_rejected state"
| "reducer state OtherAction = state"

subsection \<open>The store, the selectors and the thunks\<close>

text \<open>
  \<^verbatim>\<open>RootState\<close> is imported from the store; the selectors read its field
  \<^verbatim>\<open>login\<close> only. The record is extensible, so the other slices of the store are the
  \<open>more\<close> part of \<open>'a RootState_scheme\<close>, which no function below touches.
\<close>

record RootState =
  login :: LoginState

text \<open>\<^verbatim>\<open>selectToken\<close> and \<^verbatim>\<open>selectLoggedIn\<close> (lines 72-73).\<close>

definition selectToken :: "'a RootState_scheme \<Rightarrow> string" where
  "selectToken state = token (login state)"

definition selectLoggedIn :: "'a RootState_scheme \<Rightarrow> bool" where
  "selectLoggedIn state = (token (login state) \<noteq> '''' \<and> loggedIn (login state))"

text \<open>Dispatching an action runs the slice reducer on the field \<^verbatim>\<open>login\<close>.\<close>

definition dispatch :: "'a RootState_scheme \<Rightarrow> action \<Rightarrow> 'a RootState_scheme" where
  "dispatch state a = state\<lparr>login := reducer (login state) a\<rparr>"

text \<open>
  \<^verbatim>\<open>logOutIfLoggedIn\<close> (lines 79-86): the thunk reads the store once and
  dispatches \<^verbatim>\<open>logOut()\<close> when the selector says so.
\<close>

definition logOutIfLoggedIn :: "'a RootState_scheme \<Rightarrow> 'a RootState_scheme" where
  "logOutIfLoggedIn state =
     (let isLoggedIn = selectLoggedIn state in
      if isLoggedIn then dispatch state LogOut else state)"

text \<open>
  The collaborator \<^verbatim>\<open>fetchLogin\<close> is a parameter: its promise resolves with a
  response whose \<^verbatim>\<open>data\<close> is the token, or the call fails with an error.
\<close>

record credentials =
  user :: string
  password :: string

datatype fetch_outcome = Resolved string | Thrown login_error

text \<open>
  The payload creator of \<^verbatim>\<open>loginAsync\<close> (lines 24-28): it awaits the collaborator
  and returns the data of the response. It catches nothing, so what the collaborator
  throws leaves the payload creator as it is (\<open>Inl\<close>).
\<close>

definition payloadCreator ::
  "(string \<Rightarrow> string \<Rightarrow> fetch_outcome) \<Rightarrow> credentials \<Rightarrow> login_error + string" where
  "payloadCreator fetchLogin data =
     (case fetchLogin (user data) (password data) of
        Resolved response_data \<Rightarrow> Inr response_data
      | Thrown e \<Rightarrow> Inl e)"

text \<open>
  \<^verbatim>\<open>loginAsync\<close> (lines 22-29) is the payload creator wrapped by
  \<^verbatim>\<open>createAsyncThunk\<close> of the imported toolkit, whose lifecycle is: dispatch the
  pending action, run the payload creator, then dispatch the fulfilled action with
  the value returned, or the rejected action with the error thrown. The last action
  is \<open>loginAsync_settled\<close>; \<open>loginAsync\<close> is the list of actions one invocation
  dispatches. The promise that dispatching the thunk gives back to its caller resolves
  with the last action in both cases and never fails: \<open>loginAsync_result\<close>, where
  \<open>Inl\<close> would be an exception reaching the caller.
\<close>

definition loginAsync_settled ::
  "(string \<Rightarrow> string \<Rightarrow> fetch_outcome) \<Rightarrow> credentials \<Rightarrow> action" where
  "loginAsync_settled fetchLogin data =
     (case payloadCreator fetchLogin data of
        Inr response_data \<Rightarrow> LoginAsyncFulfilled response_data
      | Inl e \<Rightarrow> LoginAsyncRejected e)"

definition loginAsync ::
  "(string \<Rightarrow> string \<Rightarrow> fetch_outcome) \<Rightarrow> credentials \<Rightarrow> action list" where
  "loginAsync fetchLogin data = [LoginAsyncPending, loginAsync_settled fetchLogin data]"



subsection \<open>Runs of the reducer\<close>

text \<open>The states a list of actions visits, the starting state first.\<close>

fun run :: "LoginState \<Rightarrow> action list \<Rightarrow> LoginState list" where
  "run state [] = [state]"
| "run state (a # as) = state # run (reducer state a) as"

text \<open>
  The order of the request status: a change of status goes from idle or failed to
  loading, or from loading to idle or failed.
\<close>

fun status_order :: "request_status \<Rightarrow> request_status \<Rightarrow> bool" where
  "status_order Idle Loading = True"
| "status_order Failed Loading = True"
| "status_order Loading Idle = True"
| "status_order Loading Failed = True"
| "status_order _ _ = False"

fun ordered :: "request_status list \<Rightarrow> bool" where
  "ordered (x # y # zs) = ((x = y \<or> status_order x y) \<and> ordered (y # zs))"
| "ordered _ = True"

text \<open>
  Invocations of \<^verbatim>\<open>loginAsync\<close> that do not overlap: in the list of actions a
  pending action comes only when no request is in flight, and a fulfilled or rejected
  action only when one is. The flag says whether a request is in flight.
\<close>

fun sequential :: "bool \<Rightarrow> action list \<Rightarrow> bool" where
  "sequential in_flight [] = True"
| "sequential in_flight (LoginAsyncPending # as) = (\<not> in_flight \<and> sequential True as)"
| "sequential in_flight (LoginAsyncFulfilled payload # as) = (in_flight \<and> sequential False as)"
| "sequential in_flight (LoginAsyncRejected e # as) = (in_flight \<and> sequential False as)"
| "sequential in_flight (a # as) = sequential in_flight as"

text \<open>The actions that belong to the asynchronous login.\<close>

fun is_async :: "action \<Rightarrow> bool" where
  "is_async LoginAsyncPending = True"
| "is_async (LoginAsyncFulfilled payload) = True"
| "is_async (LoginAsyncRejected e) = True"
| "is_async _ = False"

section \<open>Properties\<close>

lemmas case_reducer_defs =
  logIn_def logOut_def loginAsync_pending_def loginAsync_fulfilled_def loginAsync_rejected_def

lemmas store_defs = selectToken_def selectLoggedIn_def dispatch_def

text \<open>
  C1: in every state whose token is the empty string, \<open>selectLoggedIn\<close> is false,
  whatever the field \<open>loggedIn\<close> holds; so it is on the state
  \<^verbatim>\<open>{loggedIn:true, token:"", status:"idle"}\<close>.
\<close>

theorem selectLoggedIn_empty_token:
  "(token (login state) = '''' \<longrightarrow> \<not> selectLoggedIn state) \<and>
   \<not> selectLoggedIn \<lparr>login = \<lparr>loggedIn = True, token = '''', status = Idle\<rparr>\<rparr>"
  by (simp add: selectLoggedIn_def)

theorem selectLoggedIn_empty_token_witness:
  "token (login \<lparr>login = \<lparr>loggedIn = True, token = '''', status = Loading\<rparr>\<rparr>) = '''' \<and>
   \<not> selectLoggedIn \<lparr>login = \<lparr>loggedIn = True, token = '''', status = Loading\<rparr>\<rparr>"
  using selectLoggedIn_empty_token
    [of "\<lparr>login = \<lparr>loggedIn = True, token = '''', status = Loading\<rparr>\<rparr>"]
  by simp

subsection \<open>Successful login\<close>

text \<open>
  As stated, with any payload and any starting state, the property of C2 fails on the
  code: \<open>logIn\<close> and the fulfilled handler store the payload as it is, the empty
  string too, and \<open>logIn\<close> leaves \<open>status\<close> as it was, \<open>Loading\<close> while a
  request is in flight.
\<close>

theorem login_success_counterexample:
  "\<not> (loggedIn (logIn initialState '''') \<and> token (logIn initialState '''') \<noteq> '''' \<and>
      status (logIn initialState '''') \<noteq> Loading) \<and>
   \<not> (loggedIn (loginAsync_fulfilled initialState '''') \<and>
      token (loginAsync_fulfilled initialState '''') \<noteq> '''' \<and>
      status (loginAsync_fulfilled initialState '''') \<noteq> Loading) \<and>
   \<not> (loggedIn (logIn (loginAsync_pending initialState) ''tok123'') \<and>
      token (logIn (loginAsync_pending initialState) ''tok123'') \<noteq> '''' \<and>
      status (logIn (loginAsync_pending initialState) ''tok123'') \<noteq> Loading)"
  by (simp add: case_reducer_defs initialState_def)

text \<open>
  C2 (amended): for every starting state and every payload, after the reducer
  \<open>logIn\<close> and after the fulfilled handler of \<open>loginAsync\<close> the state has
  \<open>loggedIn = True\<close> and the payload as its token, so a token that is not empty
  when the payload is not the empty string; after the fulfilled handler the status is
  \<open>Idle\<close>, so not \<open>Loading\<close>; \<open>logIn\<close> leaves the status as it was, so after
  \<open>logIn\<close> the status is not \<open>Loading\<close> when it was not \<open>Loading\<close> before.
\<close>

theorem login_success_state:
  "loggedIn (logIn state payload) \<and>
   token (logIn state payload) = payload \<and>
   status (logIn state payload) = status state \<and>
   loggedIn (loginAsync_fulfilled state payload) \<and>
   token (loginAsync_fulfilled state payload) = payload \<and>
   status (loginAsync_fulfilled state payload) = Idle \<and>
   status (loginAsync_fulfilled state payload) \<noteq> Loading \<and>
   (payload \<noteq> '''' \<longrightarrow>
      token (logIn state payload) \<noteq> '''' \<and>
      token (loginAsync_fulfilled state payload) \<noteq> '''') \<and>
   (status state \<noteq> Loading \<longrightarrow> status (logIn state payload) \<noteq> Loading)"
  by (simp add: logIn_def loginAsync_fulfilled_def)

theorem login_success_state_witness:
  "''tok123'' \<noteq> '''' \<and> status initialState \<noteq> Loading \<and>
   loggedIn (logIn initialState ''tok123'') \<and>
   token (logIn initialState ''tok123'') \<noteq> '''' \<and>
   status (logIn initialState ''tok123'') \<noteq> Loading \<and>
   loggedIn (loginAsync_fulfilled initialState ''tok123'') \<and>
   token (loginAsync_fulfilled initialState ''tok123'') \<noteq> '''' \<and>
   status (loginAsync_fulfilled initialState ''tok123'') \<noteq> Loading"
  using login_success_state [of initialState "''tok123''"]
  by (simp add: initialState_def)

text \<open>
  C3: for every payload that is not the empty string and every starting state, after
  the action \<open>logIn\<close> with that payload \<open>selectLoggedIn\<close> is true and
  \<open>selectToken\<close> is the payload.
\<close>

theorem logIn_authenticates:
  "payload \<noteq> '''' \<Longrightarrow>
     selectLoggedIn (dispatch state (LogIn payload)) \<and>
     selectToken (dispatch state (LogIn payload)) = payload"
  by (simp add: store_defs logIn_def)

theorem logIn_authenticates_witness:
  "''tok123'' \<noteq> '''' \<and>
   selectLoggedIn (dispatch \<lparr>login = initialState\<rparr> (LogIn ''tok123'')) \<and>
   selectToken (dispatch \<lparr>login = initialState\<rparr> (LogIn ''tok123'')) = ''tok123''"
  using logIn_authenticates [of "''tok123''" "\<lparr>login = initialState\<rparr>"]
  by simp

text \<open>
  C9: after \<open>logIn\<close> with the empty string as payload, from any state, the field
  \<open>loggedIn\<close> is true and \<open>selectLoggedIn\<close> is false.
\<close>

theorem logIn_empty_desync:
  "loggedIn (login (dispatch state (LogIn ''''))) = True \<and>
   \<not> selectLoggedIn (dispatch state (LogIn ''''))"
  by (simp add: store_defs logIn_def)

text \<open>
  C10: after the fulfilled handler of \<open>loginAsync\<close> with the empty string as
  payload, from any state, \<open>loggedIn\<close> is true, the token is empty and the status
  is \<open>Idle\<close>, so \<open>selectLoggedIn\<close> is false.
\<close>

theorem fulfilled_empty_desync:
  "loggedIn (login (dispatch state (LoginAsyncFulfilled ''''))) = True \<and>
   token (login (dispatch state (LoginAsyncFulfilled ''''))) = '''' \<and>
   status (login (dispatch state (LoginAsyncFulfilled ''''))) = Idle \<and>
   \<not> selectLoggedIn (dispatch state (LoginAsyncFulfilled ''''))"
  by (simp add: store_defs loginAsync_fulfilled_def)

subsection \<open>Logging out and failed login\<close>

text \<open>
  C4: after \<open>logOut\<close>, from any state, the token is the empty string and
  \<open>loggedIn\<close> is false, so \<open>selectLoggedIn\<close> is false and \<open>selectToken\<close> is
  the empty string.
\<close>

theorem logOut_clears:
  "token (logOut s) = '''' \<and> loggedIn (logOut s) = False \<and>
   login (dispatch state LogOut) = logOut (login state) \<and>
   \<not> selectLoggedIn (dispatch state LogOut) \<and>
   selectToken (dispatch state LogOut) = ''''"
  by (simp add: store_defs logOut_def)




text \<open>
  C6: when \<open>selectLoggedIn\<close> is false, \<open>logOutIfLoggedIn\<close> leaves the state as
  it is; when it is true, \<open>logOutIfLoggedIn\<close> ends in the state that dispatching
  \<open>logOut\<close> ends in.
\<close>

theorem logOutIfLoggedIn_cases:
  "(\<not> selectLoggedIn state \<longrightarrow> logOutIfLoggedIn state = state) \<and>
   (selectLoggedIn state \<longrightarrow>
      logOutIfLoggedIn state = dispatch state LogOut \<and>
      login (logOutIfLoggedIn state) = logOut (login state))"
  by (simp add: logOutIfLoggedIn_def dispatch_def)

theorem logOutIfLoggedIn_cases_witness:
  "\<not> selectLoggedIn \<lparr>login = \<lparr>loggedIn = True, token = '''', status = Failed\<rparr>\<rparr> \<and>
   logOutIfLoggedIn \<lparr>login = \<lparr>loggedIn = True, token = '''', status = Failed\<rparr>\<rparr> =
     \<lparr>login = \<lparr>loggedIn = True, token = '''', status = Failed\<rparr>\<rparr> \<and>
   selectLoggedIn \<lparr>login = \<lparr>loggedIn = True, token = ''tok123'', status = Loading\<rparr>\<rparr> \<and>
   logOutIfLoggedIn \<lparr>login = \<lparr>loggedIn = True, token = ''tok123'', status = Loading\<rparr>\<rparr> =
     dispatch \<lparr>login = \<lparr>loggedIn = True, token = ''tok123'', status = Loading\<rparr>\<rparr> LogOut \<and>
   login (logOutIfLoggedIn \<lparr>login = \<lparr>loggedIn = True, token = ''tok123'', status = Loading\<rparr>\<rparr>) =
     \<lparr>loggedIn = False, token = '''', status = Loading\<rparr>"
  using
    logOutIfLoggedIn_cases [of "\<lparr>login = \<lparr>loggedIn = True, token = '''', status = Failed\<rparr>\<rparr>"]
    logOutIfLoggedIn_cases [of "\<lparr>login = \<lparr>loggedIn = True, token = ''tok123'', status = Loading\<rparr>\<rparr>"]
  by (simp add: selectLoggedIn_def logOut_def dispatch_def)

subsection \<open>The request status\<close>

text \<open>
  C7: the pending handler of \<open>loginAsync\<close> sets the status to \<open>Loading\<close> and
  leaves \<open>loggedIn\<close> and \<open>token\<close> as they were.
\<close>

theorem pending_frame:
  "status (reducer state LoginAsyncPending) = Loading \<and>
   loggedIn (reducer state LoginAsyncPending) = loggedIn state \<and>
   token (reducer state LoginAsyncPending) = token state"
  by (simp add: loginAsync_pending_def)

text \<open>
  A status in front of a run is in order with the run when it is in order with the
  run's first status.
\<close>

lemma ordered_run_Cons:
  "ordered (x # map status (run state as)) =
     ((x = status state \<or> status_order x (status state)) \<and> ordered (map status (run state as)))"
  by (cases as) simp_all

text \<open>
  When invocations do not overlap, the flag of \<open>sequential\<close> is the status
  \<open>Loading\<close> all along the run, and every step is in order.
\<close>

lemma sequential_ordered:
  "sequential (status state = Loading) as \<Longrightarrow> ordered (map status (run state as))"
proof (induction as arbitrary: state)
  case Nil
  show ?case by simp
next
  case (Cons a as)
  have step: "status state = status (reducer state a) \<or>
              status_order (status state) (status (reducer state a))"
    using Cons.prems by (cases a; cases "status state") (simp_all add: case_reducer_defs)
  have "sequential (status (reducer state a) = Loading) as"
    using Cons.prems by (cases a) (simp_all add: case_reducer_defs)
  then have "ordered (map status (run (reducer state a) as))"
    by (rule Cons.IH)
  with step show ?case
    by (simp add: ordered_run_Cons)
qed

text \<open>
  One whole invocation of \<open>loginAsync\<close> after the other is such a run.
\<close>

lemma loginAsync_sequential:
  "sequential False (loginAsync fetchLogin data @ as) = sequential False as"
  by (simp add: loginAsync_def loginAsync_settled_def payloadCreator_def
      split: fetch_outcome.split)

text \<open>
  As stated, the order of C8 fails on the code: the handlers have no guard on the
  status they start from, so when a second invocation of \<open>loginAsync\<close> starts before
  the first has ended, the first outcome moves the status to \<open>Idle\<close> and the second
  moves it from \<open>Idle\<close> to \<open>Failed\<close> with no \<open>Loading\<close> in between.
\<close>

theorem status_order_counterexample:
  "map status (run initialState
     [LoginAsyncPending, LoginAsyncPending, LoginAsyncFulfilled ''tok123'',
      LoginAsyncRejected (LoginError ''Network Error'')]) =
     [Idle, Loading, Loading, Idle, Failed] \<and>
   \<not> ordered (map status (run initialState
     [LoginAsyncPending, LoginAsyncPending, LoginAsyncFulfilled ''tok123'',
      LoginAsyncRejected (LoginError ''Network Error'')]))"
  by (simp add: initialState_def case_reducer_defs)

text \<open>
  C8 (amended): \<open>logIn\<close> and \<open>logOut\<close> leave the status as it was; a step of
  the reducer that changes the status is one of the three handlers of \<open>loginAsync\<close>;
  a step that leaves \<open>Loading\<close> is the fulfilled handler, to \<open>Idle\<close>, or the
  rejected handler, to \<open>Failed\<close>; and along every run whose invocations of
  \<open>loginAsync\<close> do not overlap, the status follows the order idle or failed, then
  loading, then idle or failed.
\<close>

theorem status_transitions:
  "status (logIn state payload) = status state \<and>
   status (logOut state) = status state \<and>
   (status (reducer state a) \<noteq> status state \<longrightarrow> is_async a) \<and>
   (status state = Loading \<and> status (reducer state a) \<noteq> Loading \<longrightarrow>
      (\<exists>p. a = LoginAsyncFulfilled p \<and> status (reducer state a) = Idle) \<or>
      (\<exists>e. a = LoginAsyncRejected e \<and> status (reducer state a) = Failed)) \<and>
   (sequential (status state = Loading) as \<longrightarrow> ordered (map status (run state as)))"
proof -
  have "status (reducer state a) \<noteq> status state \<longrightarrow> is_async a"
    by (cases a) (simp_all add: case_reducer_defs)
  moreover have "status state = Loading \<and> status (reducer state a) \<noteq> Loading \<longrightarrow>
      (\<exists>p. a = LoginAsyncFulfilled p \<and> status (reducer state a) = Idle) \<or>
      (\<exists>e. a = LoginAsyncRejected e \<and> status (reducer state a) = Failed)"
    by (cases a) (simp_all add: case_reducer_defs)
  ultimately show ?thesis
    by (simp add: sequential_ordered logIn_def logOut_def)
qed

theorem status_transitions_witness:
  "status (reducer initialState LoginAsyncPending) \<noteq> status initialState \<and>
   is_async LoginAsyncPending \<and>
   status (loginAsync_pending initialState) = Loading \<and>
   status (reducer (loginAsync_pending initialState)
     (LoginAsyncRejected (LoginError ''Network Error''))) = Failed \<and>
   sequential (status initialState = Loading)
     [LoginAsyncPending, LoginAsyncFulfilled ''tok123'', LogOut, LoginAsyncPending,
      LoginAsyncRejected (LoginError ''Network Error'')] \<and>
   ordered (map status (run initialState
     [LoginAsyncPending, LoginAsyncFulfilled ''tok123'', LogOut, LoginAsyncPending,
      LoginAsyncRejected (LoginError ''Network Error'')]))"
  using
    status_transitions [of initialState "''''" LoginAsyncPending "[]"]
    status_transitions [of "loginAsync_pending initialState" "''''"
      "LoginAsyncRejected (LoginError ''Network Error'')" "[]"]
    status_transitions [of initialState "''''" LoginAsyncPending
      "[LoginAsyncPending, LoginAsyncFulfilled ''tok123'', LogOut, LoginAsyncPending,
        LoginAsyncRejected (LoginError ''Network Error'')]"]
  by (simp add: initialState_def case_reducer_defs)

end
